theory Spec2Isabelle
  imports Complex_Main
begin

section \<open>JavaScript values used by the route handlers\<close>

text \<open>
  Query parameters are an association list, as \<^verbatim>\<open>URLSearchParams\<close> keeps them:
  \<^verbatim>\<open>searchParams.get(k)\<close> is the value of the first pair with key \<open>k\<close>, or
  \<^verbatim>\<open>null\<close> (\<open>None\<close>) when there is none.
\<close>

type_synonym params = "(string \<times> string) list"

definition get_param :: "params \<Rightarrow> string \<Rightarrow> string option" where
  "get_param ps k = map_of ps k"

text \<open>\<^verbatim>\<open>v || d\<close> on a string or null: \<^verbatim>\<open>null\<close> and the empty string are falsy.\<close>

definition or_default :: "string option \<Rightarrow> string \<Rightarrow> string" where
  "or_default v d = (case v of None \<Rightarrow> d | Some s \<Rightarrow> if s = [] then d else s)"

text \<open>
  A JavaScript number that holds an integer or \<^verbatim>\<open>NaN\<close>: \<open>None\<close> is \<^verbatim>\<open>NaN\<close>.
  The handlers only parse, compare, add and print such numbers; the model is exact
  while the integers stay below \<open>2^53\<close> in absolute value, where a double holds every
  integer. \<^verbatim>\<open>-0\<close> and \<^verbatim>\<open>0\<close> are both \<open>Some 0\<close>: they are equally falsy and
  print alike.
\<close>

type_synonym jsint = "int option"

definition is_ws :: "char \<Rightarrow> bool" where
  "is_ws c = ((of_char c :: nat) \<in> {9, 10, 11, 12, 13, 32})"

definition is_digit :: "char \<Rightarrow> bool" where
  "is_digit c = (48 \<le> (of_char c :: nat) \<and> (of_char c :: nat) \<le> 57)"

definition digit_value :: "char \<Rightarrow> int" where
  "digit_value c = int (of_char c) - 48"

fun digits_value :: "int \<Rightarrow> string \<Rightarrow> int" where
  "digits_value acc [] = acc"
| "digits_value acc (c # cs) = digits_value (acc * 10 + digit_value c) cs"

text \<open>
  \<^verbatim>\<open>parseInt(s, 10)\<close>: leading white space is skipped (the ASCII white space here;
  the multi-byte Unicode spaces are left out), one sign is read, then the longest run
  of decimal digits; no digit gives \<^verbatim>\<open>NaN\<close>, and whatever follows the digits is
  ignored.
\<close>

definition parseInt :: "string \<Rightarrow> jsint" where
  "parseInt s =
     (let t = dropWhile is_ws s;
          neg = (t \<noteq> [] \<and> hd t = CHR ''-'');
          u = (if t \<noteq> [] \<and> (hd t = CHR ''-'' \<or> hd t = CHR ''+'') then tl t else t);
          ds = takeWhile is_digit u
      in if ds = [] then None
         else Some ((if neg then - 1 else 1) * digits_value 0 ds))"

text \<open>\<^verbatim>\<open>!n\<close> on a number: zero and \<^verbatim>\<open>NaN\<close> are falsy.\<close>

definition falsy :: "jsint \<Rightarrow> bool" where
  "falsy n = (n = None \<or> n = Some 0)"

text \<open>\<^verbatim>\<open>a > b\<close> with \<^verbatim>\<open>NaN\<close>: every comparison with \<^verbatim>\<open>NaN\<close> is false.\<close>

definition js_gt :: "jsint \<Rightarrow> int \<Rightarrow> bool" where
  "js_gt a b = (case a of None \<Rightarrow> False | Some i \<Rightarrow> i > b)"

definition js_add :: "jsint \<Rightarrow> int \<Rightarrow> jsint" where
  "js_add a b = map_option (\<lambda>i. i + b) a"

definition js_sub :: "jsint \<Rightarrow> int \<Rightarrow> jsint" where
  "js_sub a b = map_option (\<lambda>i. i - b) a"

text \<open>Printing a number inside a template string.\<close>

definition digit_char :: "nat \<Rightarrow> char" where
  "digit_char d = ''0123456789'' ! d"

function string_of_nat :: "nat \<Rightarrow> string" where
  "string_of_nat n =
     (if n < 10 then [digit_char n]
      else string_of_nat (n div 10) @ [digit_char (n mod 10)])"
  by pat_completeness auto
termination
  by (relation "measure (\<lambda>n. n)") auto

declare string_of_nat.simps [simp del]

definition string_of_int :: "int \<Rightarrow> string" where
  "string_of_int i =
     (if i < 0 then CHR ''-'' # string_of_nat (nat (- i)) else string_of_nat (nat i))"

definition fmt :: "jsint \<Rightarrow> string" where
  "fmt n = (case n of None \<Rightarrow> ''NaN'' | Some i \<Rightarrow> string_of_int i)"

text \<open>\<^verbatim>\<open>xs.join(',')\<close>.\<close>

fun join_comma :: "string list \<Rightarrow> string" where
  "join_comma [] = []"
| "join_comma [x] = x"
| "join_comma (x # y # ys) = x @ '','' @ join_comma (y # ys)"

section \<open>The upstream HTTP interface\<close>

text \<open>
  \<^verbatim>\<open>await fetch(url)\<close> either rejects (a transport error) or resolves to a response
  with a status; reading the body (\<^verbatim>\<open>text()\<close>, \<^verbatim>\<open>arrayBuffer()\<close>, \<^verbatim>\<open>blob()\<close>)
  can reject in turn, which is the body \<open>None\<close>. A body is a byte string.
\<close>

datatype http_result = NetworkError | Response nat "string option"

definition ok :: "nat \<Rightarrow> bool" where
  "ok st = (200 \<le> st \<and> st \<le> 299)"

section \<open>Provider C: the GIBS route handler\<close>

record gibs_layer =
  layer_label :: string
  layer_value :: string
  layer_description :: string
  layer_start :: string

definition GIBS_LAYERS :: "gibs_layer list" where
  "GIBS_LAYERS =
     [\<lparr>layer_label = ''MODIS Terra True Color'',
       layer_value = ''MODIS_Terra_CorrectedReflectance_TrueColor'',
       layer_description = ''Daily true color imagery from MODIS Terra (250m, 2000-present)'',
       layer_start = ''2000-02-24''\<rparr>,
      \<lparr>layer_label = ''MODIS Aqua True Color'',
       layer_value = ''MODIS_Aqua_CorrectedReflectance_TrueColor'',
       layer_description = ''Daily true color imagery from MODIS Aqua (250m, 2002-present)'',
       layer_start = ''2002-07-04''\<rparr>,
      \<lparr>layer_label = ''VIIRS SNPP True Color'',
       layer_value = ''VIIRS_SNPP_CorrectedReflectance_TrueColor'',
       layer_description = ''Daily true color imagery from VIIRS Suomi NPP (375m, 2012-present)'',
       layer_start = ''2012-01-20''\<rparr>]"

text \<open>
  Buffers. \<open>Fetched b\<close> is \<^verbatim>\<open>Buffer.from\<close> of an upstream body, \<open>Alloc n v\<close> is
  \<^verbatim>\<open>Buffer.alloc(n, v)\<close>, and \<open>Jpeg w h overlays resize\<close> is what the pipeline
  \<^verbatim>\<open>sharp({create: {width: w, height: h, ...}}).composite(overlays)[.resize(r, r)].jpeg().toBuffer()\<close>
  resolves to; an overlay is its input buffer with its \<^verbatim>\<open>left\<close> and \<^verbatim>\<open>top\<close>.
\<close>

datatype buffer =
    Fetched string
  | Alloc nat nat
  | Jpeg nat nat "(buffer \<times> nat \<times> nat) list" "(nat \<times> nat) option"

text \<open>
  The image library and the clock are outside the repository. Whether a pipeline
  resolves or throws is left to the environment (\<open>sharp_resolves\<close>), and so is the
  size of the image an upstream body decodes to (\<open>decode\<close>). \<open>time_dimension xml l\<close>
  is the handler's walk over the parsed capabilities document for layer \<open>l\<close>: the
  comma-separated list of the dimension named Time, \<open>None\<close> when parsing or the walk
  throws.
\<close>

record gibs_env =
  fetch :: "string \<Rightarrow> http_result"
  today :: string
  time_dimension :: "string \<Rightarrow> string \<Rightarrow> string list option"
  sharp_resolves :: "buffer \<Rightarrow> bool"

definition sharp_toBuffer :: "gibs_env \<Rightarrow> buffer \<Rightarrow> buffer option" where
  "sharp_toBuffer env pipeline = (if sharp_resolves env pipeline then Some pipeline else None)"

text \<open>The size of the image a buffer holds: a pipeline's output has the size it was
  created with, or resized to.\<close>

fun image_size :: "(string \<Rightarrow> (nat \<times> nat) option) \<Rightarrow> buffer \<Rightarrow> (nat \<times> nat) option" where
  "image_size decode (Fetched b) = decode b"
| "image_size decode (Alloc n v) = None"
| "image_size decode (Jpeg w h overlays None) = Some (w, h)"
| "image_size decode (Jpeg w h overlays (Some r)) = Some r"

datatype gibs_response =
    Layers "gibs_layer list"
  | Metadata gibs_layer
  | AvailableDates "string list"
  | ErrorJson nat string
  | ImageJpeg buffer string string

definition capabilities_url :: "string \<Rightarrow> string" where
  "capabilities_url layer =
     ''https://gibs.earthdata.nasa.gov/wmts/epsg3857/best/'' @ layer @
     ''/default/GoogleMapsCompatible_Level9/1.0.0/WMTSCapabilities.xml''"

definition gibs_tile_url :: "string \<Rightarrow> string \<Rightarrow> jsint \<Rightarrow> jsint \<Rightarrow> jsint \<Rightarrow> string" where
  "gibs_tile_url layer date z tileY tileX =
     ''https://gibs.earthdata.nasa.gov/wmts/epsg3857/best/'' @ layer @ ''/default/'' @ date @
     ''/GoogleMapsCompatible_Level9/'' @ fmt z @ ''/'' @ fmt tileY @ ''/'' @ fmt tileX @ ''.jpg''"

text \<open>\<^verbatim>\<open>Math.ceil(resolution / 256)\<close> and \<^verbatim>\<open>Math.floor(tilesPerSide / 2)\<close>.\<close>

definition tilesPerSide :: "int \<Rightarrow> nat" where
  "tilesPerSide resolution = nat \<lceil>real_of_int resolution / 256\<rceil>"

definition half :: "int \<Rightarrow> int" where
  "half resolution = \<lfloor>real (tilesPerSide resolution) / 2\<rfloor>"

text \<open>
  The two nested loops that build \<open>tilePromises\<close>: \<open>dy\<close> outside, \<open>dx\<close> inside, the
  tile at \<open>(startX + dx, startY + dy)\<close>.
\<close>

definition tile_grid :: "jsint \<Rightarrow> jsint \<Rightarrow> int \<Rightarrow> (jsint \<times> jsint) list list" where
  "tile_grid x y resolution =
     (let n = tilesPerSide resolution;
          startX = js_sub x (half resolution);
          startY = js_sub y (half resolution)
      in map (\<lambda>dy. map (\<lambda>dx. (js_add startX (int dx), js_add startY (int dy))) [0..<n]) [0..<n])"

definition tile_urls :: "string \<Rightarrow> string \<Rightarrow> jsint \<Rightarrow> jsint \<Rightarrow> jsint \<Rightarrow> int \<Rightarrow> string list" where
  "tile_urls layer date z x y resolution =
     map (\<lambda>(tileX, tileY). gibs_tile_url layer date z tileY tileX)
       (concat (tile_grid x y resolution))"

text \<open>
  One tile promise, \<^verbatim>\<open>fetch(tileUrl).then(r => r.ok ? r.arrayBuffer() : null)\<close>:
  it rejects when the fetch or the body read rejects, and resolves to \<^verbatim>\<open>null\<close> on a
  non-success status.
\<close>

datatype tile_outcome = Rejects | Null | Bytes string

definition tile_promise :: "gibs_env \<Rightarrow> string \<Rightarrow> tile_outcome" where
  "tile_promise env url =
     (case fetch env url of
        NetworkError \<Rightarrow> Rejects
      | Response st body \<Rightarrow>
          if ok st then (case body of None \<Rightarrow> Rejects | Some b \<Rightarrow> Bytes b) else Null)"

text \<open>\<^verbatim>\<open>tileBuffers[idx++] ? Buffer.from(...) : Buffer.alloc(256 * 256 * 3, 0xff)\<close>.\<close>

definition tile_buffer :: "tile_outcome \<Rightarrow> buffer" where
  "tile_buffer t = (case t of Bytes b \<Rightarrow> Fetched b | _ \<Rightarrow> Alloc (256 * 256 * 3) 255)"

definition images :: "nat \<Rightarrow> tile_outcome list \<Rightarrow> buffer list list" where
  "images n tileBuffers =
     map (\<lambda>dy. map (\<lambda>dx. tile_buffer (tileBuffers ! (dy * n + dx))) [0..<n]) [0..<n]"

definition row_pipeline :: "nat \<Rightarrow> buffer list \<Rightarrow> buffer" where
  "row_pipeline n row =
     Jpeg (256 * n) 256 (map (\<lambda>(i, buf). (buf, i * 256, 0)) (enumerate 0 row)) None"

definition final_pipeline :: "nat \<Rightarrow> nat \<Rightarrow> buffer list \<Rightarrow> buffer" where
  "final_pipeline n resolution stitchedRows =
     Jpeg (256 * n) (256 * n) (map (\<lambda>(i, buf). (buf, 0, i * 256)) (enumerate 0 stitchedRows))
       (Some (resolution, resolution))"

text \<open>The rows are stitched one after the other; the first pipeline that throws ends
  the loop.\<close>

fun stitch_rows :: "gibs_env \<Rightarrow> nat \<Rightarrow> buffer list list \<Rightarrow> buffer list option" where
  "stitch_rows env n [] = Some []"
| "stitch_rows env n (row # rows) =
     (case sharp_toBuffer env (row_pipeline n row) of
        None \<Rightarrow> None
      | Some rowImg \<Rightarrow> map_option (\<lambda>rest. rowImg # rest) (stitch_rows env n rows))"

text \<open>
  The branch \<^verbatim>\<open>if (resolution > 256)\<close>. Every tile fetch is issued before
  \<^verbatim>\<open>Promise.all\<close> is awaited; the \<^verbatim>\<open>try\<close> block around \<^verbatim>\<open>Promise.all\<close> and the
  pipelines turns every rejection into the 500 response.
\<close>

definition stitch :: "gibs_env \<Rightarrow> string \<Rightarrow> string \<Rightarrow> jsint \<Rightarrow> jsint \<Rightarrow> jsint \<Rightarrow> int \<Rightarrow> gibs_response" where
  "stitch env layer date z x y resolution =
     (let n = tilesPerSide resolution;
          tileBuffers = map (tile_promise env) (tile_urls layer date z x y resolution)
      in if Rejects \<in> set tileBuffers then ErrorJson 500 ''Failed to stitch GIBS tiles.''
         else
           (case stitch_rows env n (images n tileBuffers) of
              None \<Rightarrow> ErrorJson 500 ''Failed to stitch GIBS tiles.''
            | Some stitchedRows \<Rightarrow>
                (case sharp_toBuffer env (final_pipeline n (nat resolution) stitchedRows) of
                   None \<Rightarrow> ErrorJson 500 ''Failed to stitch GIBS tiles.''
                 | Some finalImg \<Rightarrow> ImageJpeg finalImg layer date)))"

text \<open>The single tile, returned as fetched.\<close>

definition single_tile :: "gibs_env \<Rightarrow> string \<Rightarrow> string \<Rightarrow> jsint \<Rightarrow> jsint \<Rightarrow> jsint \<Rightarrow> gibs_response" where
  "single_tile env layer date z x y =
     (case fetch env (gibs_tile_url layer date z y x) of
        NetworkError \<Rightarrow> ErrorJson 500 ''Error fetching GIBS tile.''
      | Response st body \<Rightarrow>
          if \<not> ok st then ErrorJson st ''Failed to fetch GIBS tile.''
          else (case body of
                  None \<Rightarrow> ErrorJson 500 ''Error fetching GIBS tile.''
                | Some tileBuffer \<Rightarrow> ImageJpeg (Fetched tileBuffer) layer date))"

text \<open>
  Part 4 of the handler, the default action. The result is the response together with
  the upstream URLs fetched, in the order of the calls.
\<close>

definition tile_endpoint :: "gibs_env \<Rightarrow> params \<Rightarrow> gibs_response \<times> string list" where
  "tile_endpoint env ps =
     (let defaultLayer = or_default (get_param ps ''layer'') ''MODIS_Terra_CorrectedReflectance_TrueColor'';
          date = or_default (get_param ps ''date'') (today env);
          z = parseInt (or_default (get_param ps ''z'') ''8'');
          x = parseInt (or_default (get_param ps ''x'') ''0'');
          y = parseInt (or_default (get_param ps ''y'') ''0'');
          resolution = parseInt (or_default (get_param ps ''resolution'') ''256'')
      in if falsy z \<and> falsy x \<and> falsy y
         then (ErrorJson 400 ''Missing tile coordinates (z, x, y)'', [])
         else if js_gt resolution 256
         then (stitch env defaultLayer date z x y (the resolution),
               tile_urls defaultLayer date z x y (the resolution))
         else (single_tile env defaultLayer date z x y,
               [gibs_tile_url defaultLayer date z y x]))"

text \<open>Parts 1 to 3: the layer list, one layer's metadata, a layer's available dates.\<close>

definition available_dates :: "gibs_env \<Rightarrow> string \<Rightarrow> gibs_response" where
  "available_dates env layer =
     (case fetch env (capabilities_url layer) of
        NetworkError \<Rightarrow> ErrorJson 500 ''Failed to fetch available dates.''
      | Response st body \<Rightarrow>
          (case body of
             None \<Rightarrow> ErrorJson 500 ''Failed to fetch available dates.''
           | Some xml \<Rightarrow>
               (case time_dimension env xml layer of
                  None \<Rightarrow> ErrorJson 500 ''Failed to fetch available dates.''
                | Some dates \<Rightarrow> AvailableDates dates)))"

definition GET_gibs :: "gibs_env \<Rightarrow> params \<Rightarrow> gibs_response \<times> string list" where
  "GET_gibs env ps =
     (let action = get_param ps ''action'';
          layer = get_param ps ''layer''
      in if action = Some ''layers'' then (Layers GIBS_LAYERS, [])
         else if action = Some ''layer-metadata''
         then (case find (\<lambda>l. Some (layer_value l) = layer) GIBS_LAYERS of
                 None \<Rightarrow> (ErrorJson 404 ''Layer not found'', [])
               | Some meta \<Rightarrow> (Metadata meta, []))
         else if action = Some ''available-dates'' \<and> layer \<noteq> None \<and> layer \<noteq> Some []
         then (available_dates env (the layer), [capabilities_url (the layer)])
         else tile_endpoint env ps)"

section \<open>Provider A: the NASA route handler\<close>

text \<open>
  The two upstream endpoints, by their query fields: the asset index
  (\<open>lon\<close>, \<open>lat\<close>, \<open>begin\<close>, \<open>end\<close>, \<open>dim\<close>) and the imagery endpoint (\<open>lon\<close>, \<open>lat\<close>,
  \<open>date\<close>, \<open>dim\<close>). The numbers are those \<^verbatim>\<open>parseFloat\<close> gave; the handler only
  copies them into the URLs, together with the API key of the process.
\<close>

datatype nasa_url =
    Assets real real string string real
  | Imagery real real string real

text \<open>
  \<open>results_dates body\<close> is \<^verbatim>\<open>(JSON.parse(body).results || []).map(r => r.date)\<close>,
  \<open>None\<close> when it throws. \<open>window7 date\<close> is the pair of
  \<^verbatim>\<open>formatISO(subDays(new Date(date), 7), { representation: 'date' })\<close> and its
  \<^verbatim>\<open>addDays\<close> twin, \<open>None\<close> when \<^verbatim>\<open>new Date(date)\<close> is invalid: then
  \<^verbatim>\<open>formatISO\<close> throws a RangeError, outside every \<^verbatim>\<open>try\<close> block.
\<close>

record nasa_env =
  nasa_fetch :: "nasa_url \<Rightarrow> http_result"
  results_dates :: "string \<Rightarrow> string list option"
  window7 :: "string \<Rightarrow> (string \<times> string) option"

datatype nasa_response =
    ImagePng string string string
  | ErrorOnly nat string
  | NoImagery string "string list" "string option"
  | Throws

text \<open>\<^verbatim>\<open>JSON.parse(body || '{}')\<close> and the walk over its results.\<close>

definition parse_results :: "nasa_env \<Rightarrow> string \<Rightarrow> string list option" where
  "parse_results env body = results_dates env (if body = [] then ''{}'' else body)"

text \<open>
  The exact-date query and the parse that follows it: the dates found, the closest
  date and the flag \<open>assetsError\<close>.
\<close>

definition assets_query :: "nasa_env \<Rightarrow> nasa_url \<Rightarrow> string list \<times> string option \<times> bool" where
  "assets_query env assetsUrl =
     (case nasa_fetch env assetsUrl of
        NetworkError \<Rightarrow> ([], None, True)
      | Response st body \<Rightarrow>
          (case body of
             None \<Rightarrow> ([], None, True)
           | Some assetsBody \<Rightarrow>
               if \<not> ok st then ([], None, True)
               else (case parse_results env assetsBody of
                       None \<Rightarrow> ([], None, True)
                     | Some availableDates \<Rightarrow>
                         (availableDates,
                          if length availableDates > 0 then Some (availableDates ! 0) else None,
                          False))))"

text \<open>The query over the window of seven days either side; every failure leaves the
  list empty.\<close>

definition window_query :: "nasa_env \<Rightarrow> nasa_url \<Rightarrow> string list" where
  "window_query env assetsUrl7 =
     (case nasa_fetch env assetsUrl7 of
        NetworkError \<Rightarrow> []
      | Response st body \<Rightarrow>
          (case body of
             None \<Rightarrow> []
           | Some assetsBody7 \<Rightarrow>
               if ok st then (case parse_results env assetsBody7 of None \<Rightarrow> [] | Some ds \<Rightarrow> ds)
               else []))"

definition no_imagery :: "string list \<Rightarrow> string option \<Rightarrow> nasa_response" where
  "no_imagery availableDates7 closestDate =
     NoImagery ''No imagery available for this date/location.'' availableDates7 closestDate"

text \<open>The response and the upstream requests made, in order.\<close>

definition GET_nasa ::
  "nasa_env \<Rightarrow> real \<Rightarrow> real \<Rightarrow> string option \<Rightarrow> real \<Rightarrow> nasa_response \<times> nasa_url list" where
  "GET_nasa env lat lon dateParam dim' =
     (let date = or_default dateParam [];
          assetsUrl = Assets lon lat date date dim';
          (availableDates, closestDate, assetsError) = assets_query env assetsUrl
      in case window7 env date of
           None \<Rightarrow> (Throws, [assetsUrl])
         | Some (begin7, end7) \<Rightarrow>
             let assetsUrl7 = Assets lon lat begin7 end7 dim';
                 availableDates7 = window_query env assetsUrl7;
                 imageUrl = Imagery lon lat date dim'
             in if \<not> assetsError \<and> date \<in> set availableDates
                then
                  ((case nasa_fetch env imageUrl of
                      NetworkError \<Rightarrow> ErrorOnly 500 ''Failed to fetch NASA image.''
                    | Response st body \<Rightarrow>
                        if \<not> ok st then ErrorOnly st ''Failed to fetch NASA image.''
                        else (case body of
                                None \<Rightarrow> ErrorOnly 500 ''Failed to fetch NASA image.''
                              | Some imageBlob \<Rightarrow>
                                  ImagePng imageBlob date (join_comma availableDates7))),
                   [assetsUrl, assetsUrl7, imageUrl])
                else
                  ((case nasa_fetch env imageUrl of
                      NetworkError \<Rightarrow> no_imagery availableDates7 closestDate
                    | Response st body \<Rightarrow>
                        if ok st
                        then (case body of
                                None \<Rightarrow> no_imagery availableDates7 closestDate
                              | Some imageBlob \<Rightarrow>
                                  ImagePng imageBlob (or_default closestDate date)
                                    (join_comma availableDates7))
                        else no_imagery availableDates7 closestDate),
                   [assetsUrl, assetsUrl7, imageUrl]))"

section \<open>The client: closest-date selection\<close>

text \<open>
  \<^verbatim>\<open>new Date(s).getTime()\<close> is a whole number of milliseconds, or \<^verbatim>\<open>NaN\<close> for an
  invalid date (\<open>None\<close>). \<^verbatim>\<open>Math.abs(a - b)\<close> is \<^verbatim>\<open>NaN\<close> as soon as one side
  is, and \<^verbatim>\<open>diff < minDiff\<close> is false as soon as one side is \<^verbatim>\<open>NaN\<close>.
\<close>

definition abs_diff :: "jsint \<Rightarrow> jsint \<Rightarrow> jsint" where
  "abs_diff a b = (case a of None \<Rightarrow> None | Some x \<Rightarrow> (case b of None \<Rightarrow> None | Some y \<Rightarrow> Some \<bar>x - y\<bar>))"

definition js_lt :: "jsint \<Rightarrow> jsint \<Rightarrow> bool" where
  "js_lt a b = (case a of None \<Rightarrow> False | Some x \<Rightarrow> (case b of None \<Rightarrow> False | Some y \<Rightarrow> x < y))"

text \<open>
  The loop \<^verbatim>\<open>for (const d of candidates) { diff = ...; if (diff < minDiff) { closest = d; minDiff = diff; } }\<close>
  with its two variables; \<open>t\<close> reads a candidate's time.
\<close>

fun scan_closest :: "('a \<Rightarrow> jsint) \<Rightarrow> jsint \<Rightarrow> 'a \<Rightarrow> jsint \<Rightarrow> 'a list \<Rightarrow> 'a" where
  "scan_closest t requested closest minDiff [] = closest"
| "scan_closest t requested closest minDiff (d # ds) =
     (let diff = abs_diff (t d) requested
      in if js_lt diff minDiff then scan_closest t requested d diff ds
         else scan_closest t requested closest minDiff ds)"

text \<open>
  Both call sites start from the first candidate and then loop over all of them, the
  first included; both run only on a list that is not empty.
\<close>

fun closest_candidate :: "('a \<Rightarrow> jsint) \<Rightarrow> jsint \<Rightarrow> 'a list \<Rightarrow> 'a option" where
  "closest_candidate t requested [] = None"
| "closest_candidate t requested (x # xs) =
     Some (scan_closest t requested x (abs_diff (t x) requested) (x # xs))"

text \<open>Provider C: the date shown as the actual one. \<open>availableDates\<close> is \<open>None\<close> when
  the reply has no such field.\<close>

definition gibs_actual_date :: "(string \<Rightarrow> jsint) \<Rightarrow> string \<Rightarrow> string list option \<Rightarrow> string" where
  "gibs_actual_date getTime date availableDates =
     (case availableDates of
        None \<Rightarrow> date
      | Some ds \<Rightarrow> (case closest_candidate getTime (getTime date) ds of None \<Rightarrow> date | Some closest \<Rightarrow> closest))"

text \<open>Provider B: the scenes the catalogue route returns, the cloud-cover filter
  \<^verbatim>\<open>(s.cloudCover ?? 100) <= cloudCoverFilter\<close> and the scene selected.\<close>

record scene =
  scene_id :: string
  datetime :: string
  cloudCover :: "real option"
  platform :: string

definition filter_scenes :: "real \<Rightarrow> scene list \<Rightarrow> scene list" where
  "filter_scenes cloudCoverFilter scenes =
     filter (\<lambda>s. (case cloudCover s of None \<Rightarrow> 100 | Some c \<Rightarrow> c) \<le> cloudCoverFilter) scenes"

definition auto_select_scene :: "(string \<Rightarrow> jsint) \<Rightarrow> string \<Rightarrow> real \<Rightarrow> scene list \<Rightarrow> scene option" where
  "auto_select_scene getTime date cloudCoverFilter scenes =
     closest_candidate (\<lambda>s. getTime (datetime s)) (getTime date) (filter_scenes cloudCoverFilter scenes)"

text \<open>The time values of four dates, each the UTC midnight of its day.\<close>

definition january_2024 :: "string \<Rightarrow> jsint" where
  "january_2024 = map_of
     [(''2024-01-01'', 1704067200000), (''2024-01-08'', 1704672000000),
      (''2024-01-10'', 1704844800000), (''2024-01-20'', 1705708800000)]"

section \<open>The client: the GIBS branch of the fetch handler\<close>

text \<open>
  The tile of a point at zoom \<open>z\<close>, as the handler computes it inline, with the doubles
  read as real numbers. \<^verbatim>\<open>Math.log\<close> of a negative number is \<^verbatim>\<open>NaN\<close>, which
  \<^verbatim>\<open>Math.floor\<close> and the arithmetic around it pass on: \<open>y\<close> is then \<open>None\<close>.
  The reading is an idealisation and has its limits. Where the real value under the
  floor lies within rounding of an integer, the doubles may give the neighbouring
  tile. At latitudes of 90 and -90 the real cosine is 0 while the double is not, and
  towards -90 the sum under the logarithm is lost to cancellation in doubles: there
  the code yields a finite row or \<^verbatim>\<open>Infinity\<close> where this definition yields \<open>None\<close>
  or a row. Nothing below relies on the values of \<open>tile_x\<close> or \<open>tile_y\<close> at such
  inputs: \<open>tile_y\<close> is evaluated at latitude 0 only and \<open>tile_x\<close> at longitudes 0
  and 200, where the doubles compute the same values, and \<open>tile_x\<close> is otherwise used
  for bounds that rounding preserves.
\<close>

definition tile_x :: "real \<Rightarrow> nat \<Rightarrow> int" where
  "tile_x lon z = \<lfloor>(lon + 180) / 360 * 2 ^ z\<rfloor>"

definition tile_y :: "real \<Rightarrow> nat \<Rightarrow> jsint" where
  "tile_y lat z =
     (let a = tan (lat * pi / 180) + 1 / cos (lat * pi / 180)
      in if 0 < a then Some \<lfloor>(1 - ln a / pi) / 2 * 2 ^ z\<rfloor> else None)"

text \<open>
  A request to the application's own API is its path with its query; the handler spells
  it as one template string. A reply is a rejection of \<^verbatim>\<open>fetch\<close>, or the \<^verbatim>\<open>ok\<close>
  flag with a body; the body is \<open>None\<close> when reading it rejects, JSON with or without
  a non-empty \<open>availableDates\<close> field, or bytes that are not JSON.
\<close>

type_synonym api_request = "string \<times> params"

datatype api_body = DatesJson "string list option" | NotJson string

datatype api_reply = ApiRejects | ApiReply bool "api_body option"

record client_env =
  api :: "api_request \<Rightarrow> api_reply"
  getTime :: "string \<Rightarrow> jsint"
  createObjectURL :: "api_body \<Rightarrow> string"

text \<open>The React state the branch writes.\<close>

record ui =
  fetchingImage :: bool
  imageUrl :: "string option"
  imageMeta :: "string option"
  availability :: "string option"
  gibsPreviewUrl :: "string option"
  gibsPreviewError :: "string option"
  gibsActualDate :: "string option"

definition dates_request :: "string \<Rightarrow> api_request" where
  "dates_request gibsLayer =
     (''/api/fetch-gibs-image'', [(''action'', ''available-dates''), (''layer'', gibsLayer)])"

definition tile_request :: "string \<Rightarrow> string \<Rightarrow> jsint \<Rightarrow> jsint \<Rightarrow> jsint \<Rightarrow> api_request" where
  "tile_request gibsLayer date z x y =
     (''/api/fetch-gibs-image'',
      [(''layer'', gibsLayer), (''date'', date), (''z'', fmt z), (''x'', fmt x), (''y'', fmt y)])"

text \<open>The first \<^verbatim>\<open>try\<close> block: the value given to \<^verbatim>\<open>setGibsActualDate\<close>.\<close>

definition resolve_actual_date :: "client_env \<Rightarrow> string \<Rightarrow> string \<Rightarrow> string option" where
  "resolve_actual_date env gibsLayer date =
     (case api env (dates_request gibsLayer) of
        ApiRejects \<Rightarrow> None
      | ApiReply datesOk body \<Rightarrow>
          if datesOk
          then (case body of
                  None \<Rightarrow> None
                | Some (NotJson b) \<Rightarrow> None
                | Some (DatesJson availableDates) \<Rightarrow>
                    Some (gibs_actual_date (getTime env) date availableDates))
          else Some date)"

text \<open>The second \<^verbatim>\<open>try\<close> block: the tile itself.\<close>

definition show_tile :: "client_env \<Rightarrow> api_request \<Rightarrow> ui \<Rightarrow> ui" where
  "show_tile env tileUrl st =
     (case api env tileUrl of
        ApiRejects \<Rightarrow>
          st\<lparr>gibsPreviewUrl := None, gibsPreviewError := Some ''Error fetching GIBS tile.'',
             availability := Some ''Error fetching GIBS tile.''\<rparr>
      | ApiReply tileOk body \<Rightarrow>
          if tileOk
          then (case body of
                  None \<Rightarrow>
                    st\<lparr>gibsPreviewUrl := None, gibsPreviewError := Some ''Error fetching GIBS tile.'',
                       availability := Some ''Error fetching GIBS tile.''\<rparr>
                | Some blob \<Rightarrow>
                    st\<lparr>gibsPreviewUrl := Some (createObjectURL env blob), gibsPreviewError := None,
                       availability := Some ''GIBS tile available!''\<rparr>)
          else st\<lparr>gibsPreviewUrl := None,
                  gibsPreviewError := Some ''No tile available for this layer/date/position.'',
                  availability := Some ''No GIBS tile available.''\<rparr>)"

text \<open>
  The handler with \<open>source = 'gibs'\<close>: the new state and the requests sent, in order.
  The tile request is built before the dates are asked for and sent whatever the answer.
\<close>

definition handleFetchImage_gibs ::
  "client_env \<Rightarrow> real \<times> real \<Rightarrow> string \<Rightarrow> string \<Rightarrow> ui \<Rightarrow> ui \<times> api_request list" where
  "handleFetchImage_gibs env center date gibsLayer st =
     (let st1 = st\<lparr>fetchingImage := True, imageUrl := None, imageMeta := None,
                    availability := None, gibsPreviewUrl := None, gibsPreviewError := None\<rparr>;
          z = 8;
          lat = fst center;
          lon = snd center;
          x = tile_x lon z;
          y = tile_y lat z;
          tileUrl = tile_request gibsLayer date (Some (int z)) (Some x) y;
          st2 = st1\<lparr>gibsActualDate := resolve_actual_date env gibsLayer date\<rparr>;
          st3 = show_tile env tileUrl st2
      in (st3\<lparr>fetchingImage := False\<rparr>, [dates_request gibsLayer, tileUrl]))"

section \<open>Concrete environments and requests\<close>

text \<open>An upstream that is out of reach, one that serves every tile, and one where a
  single tile of a two-by-two grid meets a transport error.\<close>

definition env_down :: gibs_env where
  "env_down = \<lparr>fetch = (\<lambda>u. NetworkError), today = ''2024-01-01'',
     time_dimension = (\<lambda>xml l. None), sharp_resolves = (\<lambda>p. True)\<rparr>"

definition env_up :: gibs_env where
  "env_up = \<lparr>fetch = (\<lambda>u. Response 200 (Some ''tile'')), today = ''2024-01-01'',
     time_dimension = (\<lambda>xml l. None), sharp_resolves = (\<lambda>p. True)\<rparr>"

definition env_one_down :: gibs_env where
  "env_one_down =
     \<lparr>fetch = (\<lambda>u. if u = ''https://gibs.earthdata.nasa.gov/wmts/epsg3857/best/L/default/2024-01-01/GoogleMapsCompatible_Level9/8/20/9.jpg''
                    then NetworkError else Response 200 (Some ''tile'')),
      today = ''2024-01-01'',
      time_dimension = (\<lambda>xml l. None), sharp_resolves = (\<lambda>p. True)\<rparr>"

definition req256 :: params where
  "req256 = [(''layer'', ''L''), (''date'', ''2024-01-01''), (''z'', ''8''), (''x'', ''10''),
             (''y'', ''20'')]"

definition req512 :: params where
  "req512 = [(''layer'', ''L''), (''date'', ''2024-01-01''), (''z'', ''8''), (''x'', ''10''),
             (''y'', ''20''), (''resolution'', ''512'')]"

text \<open>
  Provider A upstreams. In each, the exact-date query is the one whose \<open>begin\<close> and
  \<open>end\<close> coincide. \<open>env_no_exact\<close>: no asset on the day, two in the window, no image.
  \<open>env_exact\<close>: an asset on the day, and the image. \<open>env_assets_down\<close>: the asset
  index is out of reach, the imagery endpoint answers.
\<close>

definition week_of_8th :: "string \<Rightarrow> (string \<times> string) option" where
  "week_of_8th date =
     (if date = ''2024-01-08'' then Some (''2024-01-01'', ''2024-01-15'') else None)"



definition env_assets_down :: nasa_env where
  "env_assets_down =
     \<lparr>nasa_fetch = (\<lambda>u. case u of
          Assets lon lat b e d \<Rightarrow> NetworkError
        | Imagery lon lat date d \<Rightarrow> Response 200 (Some ''png'')),
      results_dates = (\<lambda>body. None),
      window7 = week_of_8th\<rparr>"

text \<open>Three scenes; a client whose API never answers, and one whose API serves the
  dates \<open>ds\<close> for layer L and a tile for any other request.\<close>

definition three_scenes :: "scene list" where
  "three_scenes =
     [\<lparr>scene_id = ''a'', datetime = ''2024-01-01'', cloudCover = Some 10, platform = ''s2''\<rparr>,
      \<lparr>scene_id = ''b'', datetime = ''2024-01-10'', cloudCover = Some 50, platform = ''s2''\<rparr>,
      \<lparr>scene_id = ''c'', datetime = ''2024-01-20'', cloudCover = Some 90, platform = ''s2''\<rparr>]"

definition client_offline :: client_env where
  "client_offline = \<lparr>api = (\<lambda>r. ApiRejects), getTime = january_2024,
     createObjectURL = (\<lambda>b. ''blob:1'')\<rparr>"


definition ui0 :: ui where
  "ui0 = \<lparr>fetchingImage = False, imageUrl = None, imageMeta = None, availability = None,
     gibsPreviewUrl = None, gibsPreviewError = None, gibsActualDate = None\<rparr>"

section \<open>Evaluation and basic facts\<close>

lemmas js_defs = parseInt_def is_ws_def is_digit_def digit_value_def or_default_def get_param_def
  falsy_def js_gt_def fmt_def string_of_int_def string_of_nat.simps digit_char_def
  js_add_def js_sub_def

lemmas gibs_eval = tile_endpoint_def js_defs stitch_def tile_urls_def tile_grid_def
  tilesPerSide_def half_def gibs_tile_url_def upt_conv_Cons tile_promise_def ok_def images_def
  tile_buffer_def row_pipeline_def final_pipeline_def sharp_toBuffer_def Let_def single_tile_def

lemma tilesPerSide_ge2: "256 < r \<Longrightarrow> 2 \<le> tilesPerSide r"
  unfolding tilesPerSide_def by linarith

lemma tilesPerSide_covers:
  "256 < r \<Longrightarrow> r \<le> 256 * int (tilesPerSide r) \<and> 256 * (int (tilesPerSide r) - 1) < r"
proof -
  assume r: "256 < r"
  have "real_of_int r / 256 \<le> of_int \<lceil>real_of_int r / 256\<rceil>"
    and "of_int \<lceil>real_of_int r / 256\<rceil> - 1 < real_of_int r / 256"
    using ceiling_correct [of "real_of_int r / 256"] by auto
  then have "r \<le> 256 * \<lceil>real_of_int r / 256\<rceil>" and "256 * (\<lceil>real_of_int r / 256\<rceil> - 1) < r"
    by (simp_all add: field_simps) linarith+
  moreover have "0 \<le> \<lceil>real_of_int r / 256\<rceil>"
    using r by (simp add: ceiling_le_iff[symmetric])
  ultimately show ?thesis
    by (simp add: tilesPerSide_def)
qed

lemma half_div2: "half r = int (tilesPerSide r div 2)"
  unfolding half_def by (metis floor_divide_of_nat_eq of_nat_numeral)

lemma tile_urls_length: "length (tile_urls l d z x y r) = tilesPerSide r * tilesPerSide r"
  by (simp add: tile_urls_def tile_grid_def Let_def length_concat comp_def sum_list_triv)

lemma count_below: "length (filter (\<lambda>i. i < m) [0..<n]) = min n m"
  by (induction n) auto

lemma count_above: "length (filter (\<lambda>i. m < i) [0..<n]) = n - Suc m"
  by (induction n) auto

lemma tile_grid_some:
  "tile_grid (Some x) (Some y) r =
     map (\<lambda>dy. map (\<lambda>dx. (Some (x - half r + int dx), Some (y - half r + int dy)))
       [0..<tilesPerSide r]) [0..<tilesPerSide r]"
  by (simp add: tile_grid_def Let_def js_add_def js_sub_def)

lemma tile_endpoint_400:
  "fst (tile_endpoint env ps) = ErrorJson 400 ''Missing tile coordinates (z, x, y)'' \<longleftrightarrow>
     falsy (parseInt (or_default (get_param ps ''z'') ''8'')) \<and>
     falsy (parseInt (or_default (get_param ps ''x'') ''0'')) \<and>
     falsy (parseInt (or_default (get_param ps ''y'') ''0''))"
  by (auto simp add: tile_endpoint_def Let_def stitch_def single_tile_def ok_def
      split: http_result.splits option.splits)

lemma GET_gibs_default:
  "get_param ps ''action'' = None \<Longrightarrow> GET_gibs env ps = tile_endpoint env ps"
  by (simp add: GET_gibs_def)

lemma stitch_image:
  "stitch env l d z x y r = ImageJpeg buf l' d' \<Longrightarrow>
     l' = l \<and> d' = d \<and> (\<exists>rows. buf = final_pipeline (tilesPerSide r) (nat r) rows)"
  by (auto simp: stitch_def Let_def sharp_toBuffer_def split: if_splits option.splits)


section \<open>Provider C: the compositor\<close>

lemma stitch_rows_Some:
  "stitch_rows env n rows = Some srs \<longleftrightarrow>
     (\<forall>row \<in> set rows. sharp_resolves env (row_pipeline n row)) \<and> srs = map (row_pipeline n) rows"
  by (induction rows arbitrary: srs) (auto simp: sharp_toBuffer_def split: option.splits)

lemma stitch_produces:
  "stitch env l d z x y r = ImageJpeg buf l' d' \<longleftrightarrow>
     Rejects \<notin> set (map (tile_promise env) (tile_urls l d z x y r)) \<and>
     (\<forall>row \<in> set (images (tilesPerSide r) (map (tile_promise env) (tile_urls l d z x y r))).
        sharp_resolves env (row_pipeline (tilesPerSide r) row)) \<and>
     sharp_resolves env (final_pipeline (tilesPerSide r) (nat r)
        (map (row_pipeline (tilesPerSide r))
           (images (tilesPerSide r) (map (tile_promise env) (tile_urls l d z x y r))))) \<and>
     buf = final_pipeline (tilesPerSide r) (nat r)
        (map (row_pipeline (tilesPerSide r))
           (images (tilesPerSide r) (map (tile_promise env) (tile_urls l d z x y r)))) \<and>
     l' = l \<and> d' = d"
proof -
  let ?tbs = "map (tile_promise env) (tile_urls l d z x y r)"
  let ?n = "tilesPerSide r"
  show ?thesis
  proof (cases "stitch_rows env ?n (images ?n ?tbs)")
    case None
    then have "\<not> (\<forall>row \<in> set (images ?n ?tbs). sharp_resolves env (row_pipeline ?n row))"
      using stitch_rows_Some [of env ?n "images ?n ?tbs" "map (row_pipeline ?n) (images ?n ?tbs)"]
      by auto
    with None show ?thesis
      by (auto simp: stitch_def Let_def)
  next
    case (Some srs)
    then have "(\<forall>row \<in> set (images ?n ?tbs). sharp_resolves env (row_pipeline ?n row))"
      and "srs = map (row_pipeline ?n) (images ?n ?tbs)"
      using stitch_rows_Some [of env ?n "images ?n ?tbs" srs] by auto
    with Some show ?thesis
      by (auto simp: stitch_def Let_def sharp_toBuffer_def)
  qed
qed

lemma single_tile_produces:
  "single_tile env l d z x y = ImageJpeg buf l' d' \<longleftrightarrow>
     (\<exists>st b. fetch env (gibs_tile_url l d z y x) = Response st (Some b) \<and> ok st \<and> buf = Fetched b) \<and>
     l' = l \<and> d' = d"
  by (auto simp: single_tile_def split: if_splits option.splits http_result.splits)

lemma final_pipeline_size:
  "image_size decode (final_pipeline n r rows) = Some (r, r)"
  by (simp add: final_pipeline_def)

text \<open>
  Claim C1. Take a request whose coordinates pass the check and whose resolution
  parses to \<open>r\<close>. For \<open>r \<le> 256\<close> the endpoint answers with an image exactly when the
  fetch of the single tile at the requested coordinate succeeds, and the image is that
  tile's body as fetched. For \<open>r > 256\<close> it answers with the canvas exactly when no
  tile fetch rejects and the image library resolves the row pipelines and the final
  one; the canvas is the stack of the stitched rows on \<open>256 \<sqdot> tilesPerSide\<close> pixels a
  side, resized to \<open>r \<times> r\<close>, and no other image can leave this branch. So for \<open>r\<close> one
  of 256, 512, 1024, 2048, when every tile fetch succeeds with a native tile of 256 by
  256 and the image library resolves, an image is returned and its size is exactly
  \<open>r \<times> r\<close>.
\<close>

theorem composite_dimensions:
  assumes layer: "layer = or_default (get_param ps ''layer'') ''MODIS_Terra_CorrectedReflectance_TrueColor''"
    and date: "date = or_default (get_param ps ''date'') (today env)"
    and z: "z = parseInt (or_default (get_param ps ''z'') ''8'')"
    and x: "x = parseInt (or_default (get_param ps ''x'') ''0'')"
    and y: "y = parseInt (or_default (get_param ps ''y'') ''0'')"
    and coords: "\<not> (falsy z \<and> falsy x \<and> falsy y)"
    and res: "parseInt (or_default (get_param ps ''resolution'') ''256'') = Some r"
    and tiles: "tiles = map (tile_promise env) (tile_urls layer date z x y r)"
    and canvas: "canvas = final_pipeline (tilesPerSide r) (nat r)
                   (map (row_pipeline (tilesPerSide r)) (images (tilesPerSide r) tiles))"
  shows "(r \<le> 256 \<longrightarrow>
            (\<forall>buf. fst (tile_endpoint env ps) = ImageJpeg buf layer date \<longleftrightarrow>
               (\<exists>st b. fetch env (gibs_tile_url layer date z y x) = Response st (Some b) \<and> ok st \<and>
                  buf = Fetched b))) \<and>
         (256 < r \<longrightarrow>
            (fst (tile_endpoint env ps) = ImageJpeg canvas layer date \<longleftrightarrow>
               Rejects \<notin> set tiles \<and>
               (\<forall>row \<in> set (images (tilesPerSide r) tiles).
                  sharp_resolves env (row_pipeline (tilesPerSide r) row)) \<and>
               sharp_resolves env canvas) \<and>
            (\<forall>buf l d. fst (tile_endpoint env ps) = ImageJpeg buf l d \<longrightarrow> buf = canvas) \<and>
            canvas = Jpeg (256 * tilesPerSide r) (256 * tilesPerSide r)
               (map (\<lambda>(i, buf). (buf, 0, i * 256))
                  (enumerate 0 (map (row_pipeline (tilesPerSide r)) (images (tilesPerSide r) tiles))))
               (Some (nat r, nat r)) \<and>
            image_size decode canvas = Some (nat r, nat r)) \<and>
         (r \<in> {256, 512, 1024, 2048} \<and>
          (\<forall>u \<in> set (if 256 < r then tile_urls layer date z x y r else [gibs_tile_url layer date z y x]).
             \<exists>st b. fetch env u = Response st (Some b) \<and> ok st \<and> decode b = Some (256, 256)) \<and>
          (\<forall>p. sharp_resolves env p) \<longrightarrow>
            (\<exists>buf. fst (tile_endpoint env ps) = ImageJpeg buf layer date \<and>
                   image_size decode buf = Some (nat r, nat r)))"
proof -
  have small: "fst (tile_endpoint env ps) = single_tile env layer date z x y" if "r \<le> 256"
    using that coords res
    by (auto simp add: tile_endpoint_def Let_def js_gt_def layer date z x y)
  have large: "fst (tile_endpoint env ps) = stitch env layer date z x y r" if "256 < r"
    using that coords res
    by (auto simp add: tile_endpoint_def Let_def js_gt_def layer date z x y)
  have a: "\<forall>buf. fst (tile_endpoint env ps) = ImageJpeg buf layer date \<longleftrightarrow>
               (\<exists>st b. fetch env (gibs_tile_url layer date z y x) = Response st (Some b) \<and> ok st \<and>
                  buf = Fetched b)" if "r \<le> 256"
    unfolding small [OF that] single_tile_produces by simp
  have b1: "fst (tile_endpoint env ps) = ImageJpeg canvas layer date \<longleftrightarrow>
               Rejects \<notin> set tiles \<and>
               (\<forall>row \<in> set (images (tilesPerSide r) tiles).
                  sharp_resolves env (row_pipeline (tilesPerSide r) row)) \<and>
               sharp_resolves env canvas" if "256 < r"
    unfolding large [OF that] stitch_produces tiles [symmetric] canvas [symmetric] by simp
  have b2: "\<forall>buf l d. fst (tile_endpoint env ps) = ImageJpeg buf l d \<longrightarrow> buf = canvas" if "256 < r"
    unfolding large [OF that] stitch_produces tiles [symmetric] canvas [symmetric] by simp
  have b3: "canvas = Jpeg (256 * tilesPerSide r) (256 * tilesPerSide r)
               (map (\<lambda>(i, buf). (buf, 0, i * 256))
                  (enumerate 0 (map (row_pipeline (tilesPerSide r)) (images (tilesPerSide r) tiles))))
               (Some (nat r, nat r))"
    by (simp add: canvas final_pipeline_def)
  have b4: "image_size decode canvas = Some (nat r, nat r)"
    by (simp add: canvas final_pipeline_size)
  have c: "\<exists>buf. fst (tile_endpoint env ps) = ImageJpeg buf layer date \<and>
                   image_size decode buf = Some (nat r, nat r)"
    if r: "r \<in> {256, 512, 1024, 2048}"
      and healthy: "\<forall>u \<in> set (if 256 < r then tile_urls layer date z x y r else [gibs_tile_url layer date z y x]).
             \<exists>st b. fetch env u = Response st (Some b) \<and> ok st \<and> decode b = Some (256, 256)"
      and sharp: "\<forall>p. sharp_resolves env p"
  proof (cases "256 < r")
    case True
    with healthy have "\<forall>u \<in> set (tile_urls layer date z x y r). tile_promise env u \<noteq> Rejects"
      by (auto simp: tile_promise_def)
    then have "Rejects \<notin> set tiles"
      by (auto simp: tiles)
    with b1 [OF True] sharp b4 show ?thesis by blast
  next
    case False
    with r have r256: "r = 256" by auto
    from False healthy obtain st b where
      "fetch env (gibs_tile_url layer date z y x) = Response st (Some b)" "ok st"
      "decode b = Some (256, 256)"
      by auto
    with a r256 have "fst (tile_endpoint env ps) = ImageJpeg (Fetched b) layer date"
      and "image_size decode (Fetched b) = Some (nat r, nat r)"
      by auto
    then show ?thesis by blast
  qed
  from a b1 b2 b3 b4 c show ?thesis by blast
qed


theorem composite_dimensions_witness:
  "fst (tile_endpoint env_up req512) =
     ImageJpeg
       (Jpeg 512 512
          [(Jpeg 512 256 [(Fetched ''tile'', 0, 0), (Fetched ''tile'', 256, 0)] None, 0, 0),
           (Jpeg 512 256 [(Fetched ''tile'', 0, 0), (Fetched ''tile'', 256, 0)] None, 0, 256)]
          (Some (512, 512))) ''L'' ''2024-01-01'' \<and>
   (\<exists>buf. fst (tile_endpoint env_up req512) = ImageJpeg buf ''L'' ''2024-01-01'' \<and>
      image_size (\<lambda>b. Some (256, 256)) buf = Some (512, 512)) \<and>
   fst (tile_endpoint env_up req256) = ImageJpeg (Fetched ''tile'') ''L'' ''2024-01-01'' \<and>
   (\<exists>buf. fst (tile_endpoint env_up req256) = ImageJpeg buf ''L'' ''2024-01-01'' \<and>
      image_size (\<lambda>b. Some (256, 256)) buf = Some (256, 256))"
proof -
  have p512: "or_default (get_param req512 ''layer'') ''MODIS_Terra_CorrectedReflectance_TrueColor'' = ''L''"
    "or_default (get_param req512 ''date'') (today env_up) = ''2024-01-01''"
    "parseInt (or_default (get_param req512 ''z'') ''8'') = Some 8"
    "parseInt (or_default (get_param req512 ''x'') ''0'') = Some 10"
    "parseInt (or_default (get_param req512 ''y'') ''0'') = Some 20"
    "parseInt (or_default (get_param req512 ''resolution'') ''256'') = Some 512"
    by (simp_all add: js_defs req512_def)
  have p256: "or_default (get_param req256 ''layer'') ''MODIS_Terra_CorrectedReflectance_TrueColor'' = ''L''"
    "or_default (get_param req256 ''date'') (today env_up) = ''2024-01-01''"
    "parseInt (or_default (get_param req256 ''z'') ''8'') = Some 8"
    "parseInt (or_default (get_param req256 ''x'') ''0'') = Some 10"
    "parseInt (or_default (get_param req256 ''y'') ''0'') = Some 20"
    "parseInt (or_default (get_param req256 ''resolution'') ''256'') = Some 256"
    by (simp_all add: js_defs req256_def)
  have c: "\<not> (falsy (Some 8) \<and> falsy (Some 10) \<and> falsy (Some 20))"
    by (simp add: falsy_def)
  have up: "fetch env_up u = Response 200 (Some ''tile'')" "sharp_resolves env_up p" for u p
    by (simp_all add: env_up_def)
  have tp: "tile_promise env_up u = Bytes ''tile''" for u
    by (simp add: tile_promise_def up ok_def)
  have canvas: "final_pipeline (tilesPerSide 512) 512
      (map (row_pipeline (tilesPerSide 512))
         (images (tilesPerSide 512)
            (map (tile_promise env_up) (tile_urls ''L'' ''2024-01-01'' (Some 8) (Some 10) (Some 20) 512)))) =
      Jpeg 512 512
          [(Jpeg 512 256 [(Fetched ''tile'', 0, 0), (Fetched ''tile'', 256, 0)] None, 0, 0),
           (Jpeg 512 256 [(Fetched ''tile'', 0, 0), (Fetched ''tile'', 256, 0)] None, 0, 256)]
          (Some (512, 512))"
    by (simp add: tp tile_urls_def tile_grid_def tilesPerSide_def half_def js_add_def js_sub_def
        upt_conv_Cons images_def tile_buffer_def row_pipeline_def final_pipeline_def Let_def)
  note t512 = composite_dimensions [where env = env_up and ps = req512 and r = 512
      and decode = "\<lambda>b. Some (256, 256)", OF p512(1) [symmetric] p512(2) [symmetric]
      p512(3) [symmetric] p512(4) [symmetric] p512(5) [symmetric] c p512(6) refl refl]
  note t256 = composite_dimensions [where env = env_up and ps = req256 and r = 256
      and decode = "\<lambda>b. Some (256, 256)", OF p256(1) [symmetric] p256(2) [symmetric]
      p256(3) [symmetric] p256(4) [symmetric] p256(5) [symmetric] c p256(6) refl refl]
  have i512: "fst (tile_endpoint env_up req512) =
     ImageJpeg
       (Jpeg 512 512
          [(Jpeg 512 256 [(Fetched ''tile'', 0, 0), (Fetched ''tile'', 256, 0)] None, 0, 0),
           (Jpeg 512 256 [(Fetched ''tile'', 0, 0), (Fetched ''tile'', 256, 0)] None, 0, 256)]
          (Some (512, 512))) ''L'' ''2024-01-01''"
    using t512 by (auto simp add: canvas up tp ok_def)
  have s512: "\<exists>buf. fst (tile_endpoint env_up req512) = ImageJpeg buf ''L'' ''2024-01-01'' \<and>
      image_size (\<lambda>b. Some (256, 256)) buf = Some (512, 512)"
    using t512 by (auto simp add: up tp ok_def)
  have i256: "fst (tile_endpoint env_up req256) = ImageJpeg (Fetched ''tile'') ''L'' ''2024-01-01''"
    using t256 by (auto simp add: up ok_def)
  have s256: "\<exists>buf. fst (tile_endpoint env_up req256) = ImageJpeg buf ''L'' ''2024-01-01'' \<and>
      image_size (\<lambda>b. Some (256, 256)) buf = Some (256, 256)"
    using t256 by (auto simp add: up ok_def)
  from i512 s512 i256 s256 show ?thesis by blast
qed

text \<open>
  Claim C2, at a failing input. A request for 512 pixels fetches four tiles; the fetch
  of one of them meets a transport error and the three others succeed. The rejection
  goes through \<^verbatim>\<open>Promise.all\<close> into the handler's \<^verbatim>\<open>catch\<close>: the caller receives
  the 500 response and no image, although all four tiles were requested.
\<close>

theorem transport_error_aborts_composite:
  "tile_endpoint env_one_down req512 =
     (ErrorJson 500 ''Failed to stitch GIBS tiles.'',
      [''https://gibs.earthdata.nasa.gov/wmts/epsg3857/best/L/default/2024-01-01/GoogleMapsCompatible_Level9/8/19/9.jpg'',
       ''https://gibs.earthdata.nasa.gov/wmts/epsg3857/best/L/default/2024-01-01/GoogleMapsCompatible_Level9/8/19/10.jpg'',
       ''https://gibs.earthdata.nasa.gov/wmts/epsg3857/best/L/default/2024-01-01/GoogleMapsCompatible_Level9/8/20/9.jpg'',
       ''https://gibs.earthdata.nasa.gov/wmts/epsg3857/best/L/default/2024-01-01/GoogleMapsCompatible_Level9/8/20/10.jpg''])"
  by (simp add: gibs_eval req512_def env_one_down_def)

text \<open>
  Claim C3, as the code has it. For a resolution above 256 the grid has
  \<open>tilesPerSide\<close> rows of \<open>tilesPerSide\<close> tiles, \<open>tilesPerSide\<close> being the least
  number of 256-pixel tiles that cover the resolution; its columns run from
  \<open>x - tilesPerSide div 2\<close> upwards and its rows from \<open>y - tilesPerSide div 2\<close>. In
  every row \<open>tilesPerSide div 2\<close> tiles lie below the centre column and
  \<open>tilesPerSide - 1 - tilesPerSide div 2\<close> above it: for an even \<open>tilesPerSide\<close> the
  extra tile is on the side of the smaller indices.
\<close>

theorem tile_grid_layout:
  assumes "256 < r"
  shows "length (tile_grid (Some x) (Some y) r) = tilesPerSide r \<and>
    r \<le> 256 * int (tilesPerSide r) \<and> 256 * (int (tilesPerSide r) - 1) < r \<and>
    (\<forall>row \<in> set (tile_grid (Some x) (Some y) r).
       length row = tilesPerSide r \<and>
       map fst row = map (\<lambda>dx. Some (x - int (tilesPerSide r div 2) + int dx)) [0..<tilesPerSide r] \<and>
       length (filter (\<lambda>t. the (fst t) < x) row) = tilesPerSide r div 2 \<and>
       length (filter (\<lambda>t. x < the (fst t)) row) = tilesPerSide r - 1 - tilesPerSide r div 2) \<and>
    map (\<lambda>row. map snd row) (tile_grid (Some x) (Some y) r) =
      map (\<lambda>dy. replicate (tilesPerSide r) (Some (y - int (tilesPerSide r div 2) + int dy)))
        [0..<tilesPerSide r] \<and>
    (even (tilesPerSide r) \<longrightarrow>
       tilesPerSide r div 2 = (tilesPerSide r - 1 - tilesPerSide r div 2) + 1)"
proof -
  let ?n = "tilesPerSide r"
  have n2: "2 \<le> ?n" using assms by (rule tilesPerSide_ge2)
  have below: "length (filter (\<lambda>t. the (fst t) < x)
      (map (\<lambda>dx. (Some (x - int (?n div 2) + int dx), c)) [0..<?n])) = ?n div 2" for c :: jsint
  proof -
    have "(\<lambda>dx. x - int (?n div 2) + int dx < x) = (\<lambda>dx. dx < ?n div 2)"
      by auto
    then show ?thesis
      by (simp add: filter_map comp_def count_below)
  qed
  have above: "length (filter (\<lambda>t. x < the (fst t))
      (map (\<lambda>dx. (Some (x - int (?n div 2) + int dx), c)) [0..<?n])) = ?n - 1 - ?n div 2"
    for c :: jsint
  proof -
    have "(\<lambda>dx. x < x - int (?n div 2) + int dx) = (\<lambda>dx. ?n div 2 < dx)"
      by auto
    then show ?thesis
      by (simp add: filter_map comp_def count_above)
  qed
  have rows: "\<forall>row \<in> set (tile_grid (Some x) (Some y) r).
       length row = ?n \<and>
       map fst row = map (\<lambda>dx. Some (x - int (?n div 2) + int dx)) [0..<?n] \<and>
       length (filter (\<lambda>t. the (fst t) < x) row) = ?n div 2 \<and>
       length (filter (\<lambda>t. x < the (fst t)) row) = ?n - 1 - ?n div 2"
    using below above by (auto simp: tile_grid_some half_div2 comp_def)
  have cols: "map (\<lambda>row. map snd row) (tile_grid (Some x) (Some y) r) =
      map (\<lambda>dy. replicate ?n (Some (y - int (?n div 2) + int dy))) [0..<?n]"
    by (simp add: tile_grid_some half_div2 comp_def map_replicate_const)
  have ev: "even ?n \<longrightarrow> ?n div 2 = (?n - 1 - ?n div 2) + 1"
    using n2 by presburger
  show ?thesis
    using rows cols ev tilesPerSide_covers [OF assms] by (simp add: tile_grid_some)
qed

theorem tile_grid_layout_witness:
  "length (tile_grid (Some 10) (Some 20) 1024) = 4 \<and>
   map (\<lambda>row. map snd row) (tile_grid (Some 10) (Some 20) 1024) =
     [replicate 4 (Some 18), replicate 4 (Some 19), replicate 4 (Some 20), replicate 4 (Some 21)]"
  using tile_grid_layout [of 1024 10 20]
  by (simp add: tilesPerSide_def upt_conv_Cons)

text \<open>
  Claim C3 as stated fails: at 512 pixels around tile (10, 20) the two columns are 9
  and 10. No tile lies on the side of the larger indices; the extra one is column 9.
\<close>

theorem tile_grid_counterexample:
  "tilesPerSide 512 = 2 \<and>
   tile_grid (Some 10) (Some 20) 512 =
     [[(Some 9, Some 19), (Some 10, Some 19)], [(Some 9, Some 20), (Some 10, Some 20)]] \<and>
   filter (\<lambda>t. 10 < the (fst t)) (concat (tile_grid (Some 10) (Some 20) 512)) = [] \<and>
   filter (\<lambda>t. the (fst t) < 10) (concat (tile_grid (Some 10) (Some 20) 512)) =
     [(Some 9, Some 19), (Some 9, Some 20)]"
  by (simp add: tile_grid_def tilesPerSide_def half_def js_add_def js_sub_def upt_conv_Cons)

section \<open>Provider C: the check on the tile coordinates\<close>

text \<open>
  Claim C10, as the code has it. The 400 response is returned exactly when each of
  the parsed \<open>z\<close>, \<open>x\<close>, \<open>y\<close> is zero or \<^verbatim>\<open>NaN\<close>, where an absent or empty
  \<open>x\<close> or \<open>y\<close> reads as 0 and an absent or empty \<open>z\<close> as 8; it is the only response
  sent without an upstream fetch. So \<open>z = 0, x = 0, y = 0\<close> is rejected, and a request
  without \<open>z\<close> always goes on to the fetch.
\<close>

theorem missing_coordinates_response:
  "(fst (tile_endpoint env ps) = ErrorJson 400 ''Missing tile coordinates (z, x, y)'' \<longleftrightarrow>
      falsy (parseInt (or_default (get_param ps ''z'') ''8'')) \<and>
      falsy (parseInt (or_default (get_param ps ''x'') ''0'')) \<and>
      falsy (parseInt (or_default (get_param ps ''y'') ''0''))) \<and>
   (fst (tile_endpoint env ps) = ErrorJson 400 ''Missing tile coordinates (z, x, y)'' \<longleftrightarrow>
      snd (tile_endpoint env ps) = []) \<and>
   (get_param ps ''z'' = Some ''0'' \<and> get_param ps ''x'' = Some ''0'' \<and> get_param ps ''y'' = Some ''0''
      \<longrightarrow> tile_endpoint env ps = (ErrorJson 400 ''Missing tile coordinates (z, x, y)'', [])) \<and>
   (get_param ps ''z'' = None \<longrightarrow> snd (tile_endpoint env ps) \<noteq> [])"
proof -
  have urls: "tile_urls l d z x y (the r) \<noteq> []" if "js_gt r 256" for l d z x y r
  proof -
    from that obtain i where "r = Some i" "256 < i"
      by (auto simp: js_gt_def split: option.splits)
    with tilesPerSide_ge2 [of i] tile_urls_length [of l d z x y i] show ?thesis
      by (cases "tile_urls l d z x y i") auto
  qed
  have a': "snd (tile_endpoint env ps) = [] \<longleftrightarrow>
      falsy (parseInt (or_default (get_param ps ''z'') ''8'')) \<and>
      falsy (parseInt (or_default (get_param ps ''x'') ''0'')) \<and>
      falsy (parseInt (or_default (get_param ps ''y'') ''0''))"
    using urls by (auto simp: tile_endpoint_def Let_def)
  have a: "fst (tile_endpoint env ps) = ErrorJson 400 ''Missing tile coordinates (z, x, y)'' \<longleftrightarrow>
      snd (tile_endpoint env ps) = []"
    using a' tile_endpoint_400 [of env ps] by blast
  have z8: "\<not> falsy (parseInt ''8'')"
    by (simp add: js_defs)
  have z0: "falsy (parseInt ''0'')"
    by (simp add: js_defs)
  have b: "get_param ps ''z'' = Some ''0'' \<and> get_param ps ''x'' = Some ''0'' \<and> get_param ps ''y'' = Some ''0''
      \<longrightarrow> tile_endpoint env ps = (ErrorJson 400 ''Missing tile coordinates (z, x, y)'', [])"
    using z0 by (simp add: tile_endpoint_def or_default_def)
  have c: "get_param ps ''z'' = None \<longrightarrow> snd (tile_endpoint env ps) \<noteq> []"
    using z8 a tile_endpoint_400 [of env ps] by (auto simp: or_default_def)
  show ?thesis using tile_endpoint_400 a b c by blast
qed

theorem missing_coordinates_witness:
  "tile_endpoint env_down [(''z'', ''0''), (''x'', ''0''), (''y'', ''0'')] =
     (ErrorJson 400 ''Missing tile coordinates (z, x, y)'', []) \<and>
   snd (tile_endpoint env_down [(''x'', ''3'')]) \<noteq> []"
  using missing_coordinates_response [of env_down "[(''z'', ''0''), (''x'', ''0''), (''y'', ''0'')]"]
    missing_coordinates_response [of env_down "[(''x'', ''3'')]"]
  by (simp add: get_param_def)

text \<open>
  Claim C10 as stated fails twice. A request with \<open>x = 0\<close>, \<open>y = 0\<close> and no \<open>z\<close> would
  have all three coordinates zero if every absent parameter read as 0, yet it is not
  rejected: \<open>z\<close> reads as 8 and the tile 8/0/0 is fetched. And a request whose three
  coordinates are not numbers is rejected although none of them is zero.
\<close>

theorem missing_coordinates_counterexample:
  "parseInt (or_default (get_param [(''x'', ''0''), (''y'', ''0'')] ''z'') ''0'') = Some 0 \<and>
   parseInt (or_default (get_param [(''x'', ''0''), (''y'', ''0'')] ''x'') ''0'') = Some 0 \<and>
   parseInt (or_default (get_param [(''x'', ''0''), (''y'', ''0'')] ''y'') ''0'') = Some 0 \<and>
   tile_endpoint env_down [(''x'', ''0''), (''y'', ''0'')] =
     (ErrorJson 500 ''Error fetching GIBS tile.'',
      [''https://gibs.earthdata.nasa.gov/wmts/epsg3857/best/MODIS_Terra_CorrectedReflectance_TrueColor/default/2024-01-01/GoogleMapsCompatible_Level9/8/0/0.jpg'']) \<and>
   parseInt ''a'' = None \<and>
   tile_endpoint env_down [(''z'', ''a''), (''x'', ''a''), (''y'', ''a'')] =
     (ErrorJson 400 ''Missing tile coordinates (z, x, y)'', [])"
  by (simp add: tile_endpoint_def js_defs single_tile_def env_down_def gibs_tile_url_def)

section \<open>Provider A: availability and fallback\<close>

lemmas nasa_eval = GET_nasa_def assets_query_def window_query_def parse_results_def no_imagery_def
  or_default_def ok_def Let_def week_of_8th_def

lemma assets_error_closest:
  "assets_query env u = (av, cl, True) \<Longrightarrow> av = [] \<and> cl = None"
  by (auto simp: assets_query_def split: http_result.splits option.splits if_splits)


lemma assets_error_iff:
  "snd (snd (assets_query env u)) \<longleftrightarrow>
     (case nasa_fetch env u of
        NetworkError \<Rightarrow> True
      | Response st body \<Rightarrow>
          (case body of None \<Rightarrow> True | Some b \<Rightarrow> \<not> ok st \<or> parse_results env b = None))"
  by (auto simp: assets_query_def split: http_result.splits option.splits if_splits)




text \<open>
  With a requested date that parses, a failure of the exact-date query (the fetch
  rejects, the body cannot be read, the status is not a success, or the body does not
  parse) leads to a fetch of the imagery endpoint for the same date, as the third and
  last upstream request; the answer is that image when the fetch succeeds, and
  otherwise the 404 response with its reason and the dates of the window.
\<close>

lemma exact_query_failure_falls_back:
  assumes err: "nasa_fetch env (Assets lon lat (or_default dateParam []) (or_default dateParam []) dim') = NetworkError \<or>
      (\<exists>st. nasa_fetch env (Assets lon lat (or_default dateParam []) (or_default dateParam []) dim') = Response st None) \<or>
      (\<exists>st b. nasa_fetch env (Assets lon lat (or_default dateParam []) (or_default dateParam []) dim') = Response st (Some b) \<and>
         (\<not> ok st \<or> parse_results env b = None))"
    and valid: "window7 env (or_default dateParam []) = Some (begin7, end7)"
  shows "snd (GET_nasa env lat lon dateParam dim') =
           [Assets lon lat (or_default dateParam []) (or_default dateParam []) dim',
            Assets lon lat begin7 end7 dim',
            Imagery lon lat (or_default dateParam []) dim'] \<and>
         fst (GET_nasa env lat lon dateParam dim') =
           (case nasa_fetch env (Imagery lon lat (or_default dateParam []) dim') of
              NetworkError \<Rightarrow>
                NoImagery ''No imagery available for this date/location.''
                  (window_query env (Assets lon lat begin7 end7 dim')) None
            | Response st body \<Rightarrow>
                (case body of
                   None \<Rightarrow>
                     NoImagery ''No imagery available for this date/location.''
                       (window_query env (Assets lon lat begin7 end7 dim')) None
                 | Some imageBlob \<Rightarrow>
                     if ok st
                     then ImagePng imageBlob (or_default dateParam [])
                            (join_comma (window_query env (Assets lon lat begin7 end7 dim')))
                     else NoImagery ''No imagery available for this date/location.''
                            (window_query env (Assets lon lat begin7 end7 dim')) None))"
proof -
  let ?u = "Assets lon lat (or_default dateParam []) (or_default dateParam []) dim'"
  from err have "snd (snd (assets_query env ?u))"
    unfolding assets_error_iff by (auto split: http_result.splits option.splits)
  then obtain av cl where q: "assets_query env ?u = (av, cl, True)"
    by (cases "assets_query env ?u") auto
  then have cl: "cl = None"
    using assets_error_closest by blast
  show ?thesis
    using q cl valid
    by (auto simp: GET_nasa_def Let_def no_imagery_def or_default_def
        split: http_result.splits option.splits)
qed

lemma exact_query_failure_falls_back_example:
  "GET_nasa env_assets_down 40 (- 74) (Some ''2024-01-08'') 1 =
     (ImagePng ''png'' ''2024-01-08'' [],
      [Assets (- 74) 40 ''2024-01-08'' ''2024-01-08'' 1,
       Assets (- 74) 40 ''2024-01-01'' ''2024-01-15'' 1,
       Imagery (- 74) 40 ''2024-01-08'' 1])"
proof -
  have e: "nasa_fetch env_assets_down (Assets (- 74) 40 (or_default (Some ''2024-01-08'') [])
      (or_default (Some ''2024-01-08'') []) 1) = NetworkError"
    by (simp add: env_assets_down_def)
  have w: "window7 env_assets_down (or_default (Some ''2024-01-08'') []) = Some (''2024-01-01'', ''2024-01-15'')"
    by (simp add: env_assets_down_def week_of_8th_def or_default_def)
  show ?thesis
    using exact_query_failure_falls_back [OF disjI1 [OF e] w]
    by (simp add: env_assets_down_def window_query_def ok_def or_default_def prod_eq_iff)
qed

text \<open>
  Claim C7, at a failing input. The request carries no date, so the handler reads the
  date as the empty string, and the asset index is out of reach. The exact-date
  request is sent and fails; then \<^verbatim>\<open>formatISO\<close>, called outside every \<^verbatim>\<open>try\<close>
  block on the invalid date, throws. The exception leaves the handler: the imagery
  endpoint is never asked and no response with a reason is built.
\<close>

theorem missing_date_throws_before_fallback:
  "GET_nasa env_assets_down 40 (- 74) None 1 = (Throws, [Assets (- 74) 40 [] [] 1])"
  by (simp add: nasa_eval env_assets_down_def)

section \<open>The client: closest-date selection, proved\<close>

lemma scan_first_minimum:
  assumes "\<forall>x \<in> set (c # ds). t x \<noteq> None"
    and "scan_closest t (Some r) c (abs_diff (t c) (Some r)) ds = res"
  shows "\<exists>ys zs. c # ds = ys @ res # zs \<and>
           (\<forall>y \<in> set ys. \<bar>the (t res) - r\<bar> < \<bar>the (t y) - r\<bar>) \<and>
           (\<forall>z \<in> set zs. \<bar>the (t res) - r\<bar> \<le> \<bar>the (t z) - r\<bar>)"
  using assms
proof (induction ds arbitrary: c)
  case Nil
  then have "[c] = [] @ res # []" by simp
  then show ?case by fastforce
next
  case (Cons d ds)
  from Cons.prems(1) obtain tc td where tc: "t c = Some tc" and td: "t d = Some td"
    by auto
  show ?case
  proof (cases "\<bar>td - r\<bar> < \<bar>tc - r\<bar>")
    case True
    with Cons.prems(2) have step: "scan_closest t (Some r) d (abs_diff (t d) (Some r)) ds = res"
      by (simp add: tc td abs_diff_def js_lt_def)
    from Cons.prems(1) have "\<forall>x \<in> set (d # ds). t x \<noteq> None" by simp
    from Cons.IH [OF this step] obtain ys zs where
      split: "d # ds = ys @ res # zs"
      and before: "\<forall>y \<in> set ys. \<bar>the (t res) - r\<bar> < \<bar>the (t y) - r\<bar>"
      and after: "\<forall>z \<in> set zs. \<bar>the (t res) - r\<bar> \<le> \<bar>the (t z) - r\<bar>"
      by blast
    have "\<bar>the (t res) - r\<bar> \<le> \<bar>td - r\<bar>"
    proof (cases ys)
      case Nil
      with split have "res = d" by simp
      then show ?thesis by (simp add: td)
    next
      case (Cons y ys')
      with split have "y = d" by simp
      with Cons before show ?thesis by (auto simp: td)
    qed
    with True have "\<bar>the (t res) - r\<bar> < \<bar>the (t c) - r\<bar>"
      by (simp add: tc)
    with split before after have
      "c # d # ds = (c # ys) @ res # zs \<and>
       (\<forall>y \<in> set (c # ys). \<bar>the (t res) - r\<bar> < \<bar>the (t y) - r\<bar>) \<and>
       (\<forall>z \<in> set zs. \<bar>the (t res) - r\<bar> \<le> \<bar>the (t z) - r\<bar>)"
      by simp
    then show ?thesis by blast
  next
    case False
    with Cons.prems(2) have step: "scan_closest t (Some r) c (abs_diff (t c) (Some r)) ds = res"
      by (simp add: tc td abs_diff_def js_lt_def)
    from Cons.prems(1) have "\<forall>x \<in> set (c # ds). t x \<noteq> None" by simp
    from Cons.IH [OF this step] obtain ys zs where
      split: "c # ds = ys @ res # zs"
      and before: "\<forall>y \<in> set ys. \<bar>the (t res) - r\<bar> < \<bar>the (t y) - r\<bar>"
      and after: "\<forall>z \<in> set zs. \<bar>the (t res) - r\<bar> \<le> \<bar>the (t z) - r\<bar>"
      by blast
    show ?thesis
    proof (cases ys)
      case Nil
      with split have res: "res = c" and zs: "zs = ds" by simp_all
      from False after have
        "c # d # ds = [] @ res # (d # ds) \<and>
         (\<forall>y \<in> set []. \<bar>the (t res) - r\<bar> < \<bar>the (t y) - r\<bar>) \<and>
         (\<forall>z \<in> set (d # ds). \<bar>the (t res) - r\<bar> \<le> \<bar>the (t z) - r\<bar>)"
        using res zs by (auto simp: tc td)
      then show ?thesis by blast
    next
      case (Cons y ys')
      with split have y: "y = c" and rest: "ds = ys' @ res # zs" by simp_all
      from before Cons y have "\<bar>the (t res) - r\<bar> < \<bar>tc - r\<bar>" by (auto simp: tc)
      with False have "\<bar>the (t res) - r\<bar> < \<bar>the (t d) - r\<bar>" by (simp add: td)
      with before after Cons y rest have
        "c # d # ds = (c # d # ys') @ res # zs \<and>
         (\<forall>y \<in> set (c # d # ys'). \<bar>the (t res) - r\<bar> < \<bar>the (t y) - r\<bar>) \<and>
         (\<forall>z \<in> set zs. \<bar>the (t res) - r\<bar> \<le> \<bar>the (t z) - r\<bar>)"
        by auto
      then show ?thesis by blast
    qed
  qed
qed

lemma closest_candidate_first_minimum:
  assumes "xs \<noteq> []" and "\<forall>x \<in> set xs. t x \<noteq> None"
  shows "\<exists>c ys zs. closest_candidate t (Some r) xs = Some c \<and> xs = ys @ c # zs \<and>
           (\<forall>y \<in> set ys. \<bar>the (t c) - r\<bar> < \<bar>the (t y) - r\<bar>) \<and>
           (\<forall>z \<in> set zs. \<bar>the (t c) - r\<bar> \<le> \<bar>the (t z) - r\<bar>)"
proof -
  from assms(1) obtain x xs' where xs: "xs = x # xs'" by (cases xs) auto
  with assms(2) obtain tx where tx: "t x = Some tx" by auto
  have first: "closest_candidate t (Some r) xs =
      Some (scan_closest t (Some r) x (abs_diff (t x) (Some r)) xs')"
    by (simp add: xs tx abs_diff_def js_lt_def)
  from scan_first_minimum [of x xs' t r, OF _ refl] assms(2) xs show ?thesis
    unfolding first by blast 
qed

section \<open>Printing and parsing numbers; tiles of points\<close>










lemma tile_x_east: "180 \<le> lon \<Longrightarrow> 2 ^ z \<le> tile_x lon z"
proof -
  assume "180 \<le> lon"
  then have "1 \<le> (lon + 180) / 360" by simp
  then have "1 * 2 ^ z \<le> (lon + 180) / 360 * 2 ^ z"
    by (intro mult_right_mono) auto
  then have "of_int (2 ^ z) \<le> (lon + 180) / 360 * 2 ^ z" by simp
  then show ?thesis unfolding tile_x_def by (simp only: le_floor_iff)
qed

lemma tile_x_west: "lon < - 180 \<Longrightarrow> tile_x lon z < 0"
proof -
  assume "lon < - 180"
  then have "(lon + 180) / 360 < 0" by simp
  then have "(lon + 180) / 360 * 2 ^ z < 0"
    by (simp add: mult_neg_pos)
  then show ?thesis unfolding tile_x_def by (simp add: floor_less_iff)
qed


lemmas client_eval = gibs_actual_date_def january_2024_def abs_diff_def js_lt_def
  auto_select_scene_def filter_scenes_def three_scenes_def

section \<open>Closest-date and closest-scene selection\<close>

text \<open>
  Claim C5. With a requested date and candidates whose times are all valid, the date
  shown for provider C and the scene selected for provider B split the candidate list
  in two: every candidate before the selected one is strictly farther from the requested
  time, and every candidate after it is at least as far. So the selected candidate
  minimises the absolute time difference, and among those that do it is the earliest in
  the list. For the dates 2024-01-01, 2024-01-10, 2024-01-20 and the request
  2024-01-08 the selection is 2024-01-10.
\<close>

theorem closest_selection:
  assumes "tm date = Some r"
  shows "(ds \<noteq> [] \<and> (\<forall>d \<in> set ds. tm d \<noteq> None) \<longrightarrow>
            (\<exists>ys zs. ds = ys @ gibs_actual_date tm date (Some ds) # zs \<and>
               (\<forall>y \<in> set ys. \<bar>the (tm (gibs_actual_date tm date (Some ds))) - r\<bar>
                                < \<bar>the (tm y) - r\<bar>) \<and>
               (\<forall>z \<in> set zs. \<bar>the (tm (gibs_actual_date tm date (Some ds))) - r\<bar>
                                \<le> \<bar>the (tm z) - r\<bar>))) \<and>
         (filter_scenes cloudCoverFilter scenes \<noteq> [] \<and>
          (\<forall>s \<in> set (filter_scenes cloudCoverFilter scenes). tm (datetime s) \<noteq> None) \<longrightarrow>
            (\<exists>c ys zs. auto_select_scene tm date cloudCoverFilter scenes = Some c \<and>
               filter_scenes cloudCoverFilter scenes = ys @ c # zs \<and>
               (\<forall>y \<in> set ys. \<bar>the (tm (datetime c)) - r\<bar> < \<bar>the (tm (datetime y)) - r\<bar>) \<and>
               (\<forall>z \<in> set zs. \<bar>the (tm (datetime c)) - r\<bar> \<le> \<bar>the (tm (datetime z)) - r\<bar>))) \<and>
         gibs_actual_date january_2024 ''2024-01-08''
           (Some [''2024-01-01'', ''2024-01-10'', ''2024-01-20'']) = ''2024-01-10''"
proof -
  have c: "\<exists>ys zs. ds = ys @ gibs_actual_date tm date (Some ds) # zs \<and>
               (\<forall>y \<in> set ys. \<bar>the (tm (gibs_actual_date tm date (Some ds))) - r\<bar>
                                < \<bar>the (tm y) - r\<bar>) \<and>
               (\<forall>z \<in> set zs. \<bar>the (tm (gibs_actual_date tm date (Some ds))) - r\<bar>
                                \<le> \<bar>the (tm z) - r\<bar>)"
    if "ds \<noteq> []" "\<forall>d \<in> set ds. tm d \<noteq> None"
  proof -
    from closest_candidate_first_minimum [OF that, of r] obtain c ys zs where
      "closest_candidate tm (Some r) ds = Some c" "ds = ys @ c # zs"
      "\<forall>y \<in> set ys. \<bar>the (tm c) - r\<bar> < \<bar>the (tm y) - r\<bar>"
      "\<forall>z \<in> set zs. \<bar>the (tm c) - r\<bar> \<le> \<bar>the (tm z) - r\<bar>"
      by blast
    moreover from this(1) have "c = gibs_actual_date tm date (Some ds)"
      by (simp add: gibs_actual_date_def assms)
    ultimately show ?thesis by metis
  qed
  have b: "\<exists>c ys zs. auto_select_scene tm date cloudCoverFilter scenes = Some c \<and>
               filter_scenes cloudCoverFilter scenes = ys @ c # zs \<and>
               (\<forall>y \<in> set ys. \<bar>the (tm (datetime c)) - r\<bar> < \<bar>the (tm (datetime y)) - r\<bar>) \<and>
               (\<forall>z \<in> set zs. \<bar>the (tm (datetime c)) - r\<bar> \<le> \<bar>the (tm (datetime z)) - r\<bar>)"
    if "filter_scenes cloudCoverFilter scenes \<noteq> []"
      "\<forall>s \<in> set (filter_scenes cloudCoverFilter scenes). tm (datetime s) \<noteq> None"
    using closest_candidate_first_minimum [of "filter_scenes cloudCoverFilter scenes"
        "\<lambda>s. tm (datetime s)" r, OF that]
    by (simp add: auto_select_scene_def assms)
  have e: "gibs_actual_date january_2024 ''2024-01-08''
           (Some [''2024-01-01'', ''2024-01-10'', ''2024-01-20'']) = ''2024-01-10''"
    by (simp add: client_eval)
  from b c e show ?thesis by blast
qed

theorem closest_selection_witness:
  "(\<exists>ys zs. [''2024-01-01'', ''2024-01-10'', ''2024-01-20''] = ys @ ''2024-01-10'' # zs) \<and>
   auto_select_scene january_2024 ''2024-01-08'' 60 three_scenes = Some (three_scenes ! 1)"
proof -
  have t: "january_2024 ''2024-01-08'' = Some 1704672000000"
    by (simp add: january_2024_def)
  have d: "[''2024-01-01'', ''2024-01-10'', ''2024-01-20''] \<noteq> [] \<and>
      (\<forall>d \<in> set [''2024-01-01'', ''2024-01-10'', ''2024-01-20'']. january_2024 d \<noteq> None)"
    by (simp add: january_2024_def)
  have f: "filter_scenes 60 three_scenes = [three_scenes ! 0, three_scenes ! 1]"
    by (simp add: filter_scenes_def three_scenes_def)
  have s: "filter_scenes 60 three_scenes \<noteq> [] \<and>
      (\<forall>s \<in> set (filter_scenes 60 three_scenes). january_2024 (datetime s) \<noteq> None)"
    by (simp add: f) (simp add: three_scenes_def january_2024_def)
  have sel: "auto_select_scene january_2024 ''2024-01-08'' 60 three_scenes = Some (three_scenes ! 1)"
    by (simp add: client_eval)
  from closest_selection [where tm = january_2024 and date = "''2024-01-08''"
      and r = 1704672000000 and ds = "[''2024-01-01'', ''2024-01-10'', ''2024-01-20'']"
      and cloudCoverFilter = 60 and scenes = three_scenes] t d s
  have "\<exists>ys zs. [''2024-01-01'', ''2024-01-10'', ''2024-01-20''] =
      ys @ gibs_actual_date january_2024 ''2024-01-08''
        (Some [''2024-01-01'', ''2024-01-10'', ''2024-01-20'']) # zs"
    by blast
  moreover have "gibs_actual_date january_2024 ''2024-01-08''
        (Some [''2024-01-01'', ''2024-01-10'', ''2024-01-20'']) = ''2024-01-10''"
    by (simp add: client_eval)
  ultimately show ?thesis using sel by simp
qed

section \<open>Provider C: the tile request of the client\<close>









section \<open>The tile of a point outside the coordinate domain\<close>

text \<open>
  Claim C9, as the code has it. The tile computation has no failure result and nothing
  checks its input: for every latitude and longitude the handler sends its two
  requests, the second being the tile request with the column and row it computed. A
  longitude of 180 or more puts a column of \<open>2^zoom\<close> or more into the request, and a
  longitude below -180 a negative column.
\<close>

theorem point_to_tile_unchecked:
  "(180 \<le> lon \<longrightarrow> 2 ^ z \<le> tile_x lon z) \<and>
   (lon < - 180 \<longrightarrow> tile_x lon z < 0) \<and>
   (\<exists>x y. snd (handleFetchImage_gibs env (lat, lon) date gibsLayer st) =
            [dates_request gibsLayer, tile_request gibsLayer date (Some 8) (Some x) y] \<and>
          (180 \<le> lon \<longrightarrow> 2 ^ 8 \<le> x) \<and> (lon < - 180 \<longrightarrow> x < 0))"
proof -
  have "snd (handleFetchImage_gibs env (lat, lon) date gibsLayer st) =
      [dates_request gibsLayer,
       tile_request gibsLayer date (Some 8) (Some (tile_x lon 8)) (tile_y lat 8)]"
    by (simp add: handleFetchImage_gibs_def Let_def)
  then show ?thesis
    using tile_x_east [of lon z] tile_x_west [of lon z] tile_x_east [of lon 8]
      tile_x_west [of lon 8]
    by blast
qed

theorem point_to_tile_unchecked_witness:
  "(\<exists>x y. snd (handleFetchImage_gibs client_offline (0, 200) ''2024-01-08'' ''L'' ui0) =
            [dates_request ''L'', tile_request ''L'' ''2024-01-08'' (Some 8) (Some x) y] \<and>
          2 ^ 8 \<le> x) \<and>
   (\<exists>x y. snd (handleFetchImage_gibs client_offline (0, - 200) ''2024-01-08'' ''L'' ui0) =
            [dates_request ''L'', tile_request ''L'' ''2024-01-08'' (Some 8) (Some x) y] \<and>
          x < 0)"
proof -
  have e: "(180::real) \<le> 200" and w: "(- 200::real) < - 180"
    by simp_all
  from point_to_tile_unchecked [of 200 8 client_offline 0 "''2024-01-08''" "''L''" ui0] e
    point_to_tile_unchecked [of "- 200" 8 client_offline 0 "''2024-01-08''" "''L''" ui0] w
  show ?thesis by blast
qed

text \<open>
  Claim C9 as stated fails: for the point at latitude 0, longitude 200 the handler
  computes the tile (270, 128) at zoom 8, where columns end at 255, and requests it.
  For \<open>y\<close> every intermediate value is the same in doubles as in the reals
  (\<open>tan 0 = 0\<close>, \<open>cos 0 = 1\<close>, \<open>ln 1 = 0\<close>); for \<open>x\<close>, 380 / 360 * 256 is
  about 270.2, far from an integer.
\<close>

theorem point_to_tile_counterexample:
  "tile_x 200 8 = 270 \<and> tile_y 0 8 = Some 128 \<and>
   snd (handleFetchImage_gibs client_offline (0, 200) ''2024-01-08'' ''L'' ui0) =
     [(''/api/fetch-gibs-image'', [(''action'', ''available-dates''), (''layer'', ''L'')]),
      (''/api/fetch-gibs-image'',
       [(''layer'', ''L''), (''date'', ''2024-01-08''), (''z'', ''8''), (''x'', ''270''),
        (''y'', ''128'')])]"
  by (simp add: handleFetchImage_gibs_def Let_def tile_x_def tile_y_def tile_request_def
      dates_request_def js_defs)

end
